theory Spec2Isabelle
  imports Main "HOL-Library.Sublist"
begin

section \<open>The models of the news blog: articles, their slugs, and the latest-entries plugin\<close>

text \<open>
  \<open>aldryn_newsblog/models.py\<close> is a set of Django model declarations with three pieces
  of behaviour: the module-level computation of \<open>LANGUAGE_CODES\<close> (lines 27-33),
  \<open>Article.slugify\<close> and \<open>Article.save\<close> (lines 96-143), and
  \<open>LatestEntriesPlugin.get_articles\<close> (lines 166-168). Exceptions are values of the type
  \<open>error\<close>; the database is an explicit \<open>store\<close> that is passed in and returned.
\<close>

subsection \<open>Exceptions\<close>

text \<open>
  \<open>IntegrityError\<close> carries the constraint the database found violated. Python's
  \<open>except IntegrityError\<close> matches on the class alone, whatever the constraint.
  \<open>DatabaseError\<close> stands for a failure of the storage layer that is not an integrity
  violation (a lost connection, or a query inside a transaction that a failed statement
  has already broken).
\<close>

datatype constraint = unique_language_code_slug | not_null_owner

datatype error =
    ImproperlyConfigured
  | AttributeError
  | DoesNotExist
  | MultipleObjectsReturned
  | AssertionError
  | IntegrityError constraint
  | DatabaseError

fun is_IntegrityError :: "error \<Rightarrow> bool" where
  "is_IntegrityError (IntegrityError c) = True"
| "is_IntegrityError e = False"

subsection \<open>Module initialisation: \<open>LANGUAGE_CODES\<close> (lines 27-33)\<close>

text \<open>
  Django's settings object always has \<open>LANGUAGES\<close> (a sequence of (code, name) pairs, with a
  default in Django's global settings), so it is a list of pairs here. \<open>LANGUAGE\<close> is not
  a setting Django defines: the attribute exists only if the project's settings module
  assigns it, and reading a missing attribute raises \<open>AttributeError\<close>. It is an optional
  string, \<open>None\<close> for the missing attribute.
\<close>

type_synonym lang = string

record settings =
  LANGUAGES :: "(lang \<times> string) list"
  LANGUAGE :: "lang option"

definition LANGUAGE_CODES :: "settings \<Rightarrow> error + lang list" where
  "LANGUAGE_CODES s =
     (if LANGUAGES s \<noteq> [] then Inr (map fst (LANGUAGES s))
      else case LANGUAGE s of
             None \<Rightarrow> Inl AttributeError
           | Some l \<Rightarrow> if l \<noteq> [] then Inr [l] else Inl ImproperlyConfigured)"

subsection \<open>The database\<close>

text \<open>
  The tables the module reads and writes: \<open>Person\<close> rows (of the package \<open>aldryn_people\<close>), \<open>Article\<close> rows
  and the rows of the translation table that \<open>TranslatedFields\<close> (lines 46-69) creates, one
  per article and language, with \<open>unique_together = (language_code, slug)\<close> (line 68).
  Only the columns the code of this module reads are kept: the other fields (lead-in,
  meta fields, content placeholder, namespace, categories, tags, image) take no part in
  \<open>save\<close> or \<open>get_articles\<close>.
\<close>

record user =
  user_id :: nat
  first_name :: string
  last_name :: string

record person =
  person_id :: nat
  person_user :: "nat option"
  person_name :: string

record row =
  row_id :: nat
  row_author :: "nat option"
  row_owner :: nat
  row_publishing_date :: int

record translation =
  master :: nat
  t_language_code :: lang
  t_title :: string
  t_slug :: string

record store =
  persons :: "person list"
  articles :: "row list"
  translation_table :: "translation list"

definition empty_store :: store where
  "empty_store = \<lparr>persons = [], articles = [], translation_table = []\<rparr>"

text \<open>The constraint of line 68 on the translation table.\<close>

definition unique_together :: "store \<Rightarrow> bool" where
  "unique_together st =
     distinct (map (\<lambda>t. (t_language_code t, t_slug t)) (translation_table st))"

text \<open>An auto-incremented primary key: one more than the largest key in the table.\<close>

definition next_id :: "nat list \<Rightarrow> nat" where
  "next_id ids = Suc (foldr max ids 0)"

subsection \<open>The article instance\<close>

text \<open>
  The Python object \<open>self\<close>, with the translated fields of its current language
  (\<open>language_code\<close>). \<open>pk\<close> is the attribute \<open>id\<close>, \<open>None\<close> until the first insert.
  \<open>owner\<close> is \<open>None\<close> while no user has been assigned; reading \<open>self.owner\<close> then raises
  \<open>DoesNotExist\<close>, and the database refuses the row (the column is not nullable, line 76).
  \<open>author\<close> is the key in the column \<open>author_id\<close>, \<open>None\<close> for no author.

  \<open>name\<close>: the class declares no field called \<open>name\<close> (the translated fields are \<open>title\<close>,
  \<open>slug\<close>, \<open>lead_in\<close>, \<open>meta_title\<close>, \<open>meta_description\<close>, \<open>meta_keywords\<close>), yet \<open>save\<close> reads
  \<open>self.name\<close> (lines 114 and 137). A Python object has such an attribute only if somebody
  assigned one to the instance; \<open>name a = None\<close> is the instance as the class makes it, and
  reading the attribute then raises \<open>AttributeError\<close>.
\<close>

record article =
  pk :: "nat option"
  language_code :: lang
  title :: string
  slug :: string
  name :: "string option"
  author :: "nat option"
  owner :: "user option"
  publishing_date :: int

subsection \<open>What \<open>save\<close> calls outside this module\<close>

text \<open>
  \<open>save\<close> calls three things this module does not define: Django's
  \<open>django.utils.text.slugify\<close> (imported as \<open>default_slugify\<close>, line 10), the inherited
  \<open>TranslatableModel.save\<close> (\<open>super(Article, self).save\<close>) and the query
  \<open>Article.objects.language(lang).exclude(id=self.id).values_list('translations__slug', flat=True)\<close>
  (lines 130-131). \<open>save\<close> is defined for any behaviour of the three. \<open>super_save\<close> either
  returns the new store and the primary key of the saved row, or raises; what it raises
  comes with the store and the value of \<open>self.id\<close> as the failed call leaves them, since a
  save that is refused half way may already have written. The query either raises or
  returns one entry per row it finds, \<open>None\<close> for an SQL NULL.
\<close>

record framework =
  default_slugify :: "string \<Rightarrow> string"
  super_save :: "store \<Rightarrow> article \<Rightarrow> error \<times> store \<times> nat option + store \<times> nat"
  values_list :: "store \<Rightarrow> lang \<Rightarrow> nat option \<Rightarrow> error + string option list"

subsection \<open>\<open>Article.slugify\<close> (lines 96-100)\<close>

text \<open>\<open>"_%d" % i\<close>: the decimal digits of the counter, which \<open>save\<close> counts up from 1.\<close>

definition digit :: "nat \<Rightarrow> char" where
  "digit d = char_of (48 + d)"

fun decimal :: "nat \<Rightarrow> string" where
  "decimal n = (if n < 10 then [digit n] else decimal (n div 10) @ [digit (n mod 10)])"

declare decimal.simps [simp del]

definition slugify :: "framework \<Rightarrow> string \<Rightarrow> nat option \<Rightarrow> string" where
  "slugify fw category i =
     (let slug = default_slugify fw category
      in case i of None \<Rightarrow> slug | Some k \<Rightarrow> slug @ ''_'' @ decimal k)"

subsection \<open>\<open>Article.save\<close> (lines 102-143)\<close>

text \<open>
  \<open>Person.objects.get_or_create(user=..., defaults={'name': ...})\<close>: the one person of that
  user if there is exactly one, a new row if there is none, \<open>MultipleObjectsReturned\<close>
  otherwise.
\<close>

definition get_or_create :: "store \<Rightarrow> user \<Rightarrow> string \<Rightarrow> error + store \<times> nat" where
  "get_or_create st u nm =
     (case filter (\<lambda>p. person_user p = Some (user_id u)) (persons st) of
        [] \<Rightarrow>
          let p = \<lparr>person_id = next_id (map person_id (persons st)),
                   person_user = Some (user_id u), person_name = nm\<rparr>
          in Inr (st\<lparr>persons := persons st @ [p]\<rparr>, person_id p)
      | [p] \<Rightarrow> Inr (st, person_id p)
      | _ \<Rightarrow> Inl MultipleObjectsReturned)"

text \<open>
  Lines 104-110. Reading \<open>self.author\<close> with a key set fetches the person, and raises
  \<open>DoesNotExist\<close> if no person has that key.
\<close>

definition ensure_author :: "store \<Rightarrow> article \<Rightarrow> error + store \<times> article" where
  "ensure_author st a =
     (case author a of
        Some p \<Rightarrow> if p \<in> set (map person_id (persons st)) then Inr (st, a) else Inl DoesNotExist
      | None \<Rightarrow>
          (case owner a of
             None \<Rightarrow> Inl DoesNotExist
           | Some u \<Rightarrow>
               (case get_or_create st u (first_name u @ '' '' @ last_name u) of
                  Inl e \<Rightarrow> Inl e
                | Inr (st', p) \<Rightarrow> Inr (st', a\<lparr>author := Some p\<rparr>))))"

text \<open>Lines 129-134: the loop over \<open>all_slugs\<close>, \<open>base\<close> being \<open>self.slug\<close>.\<close>

fun collect_slugs :: "string \<Rightarrow> string option list \<Rightarrow> string list \<Rightarrow> string list" where
  "collect_slugs base [] slugs = slugs"
| "collect_slugs base (None # all_slugs) slugs = collect_slugs base all_slugs slugs"
| "collect_slugs base (Some s # all_slugs) slugs =
     (if s \<noteq> [] \<and> prefix base s then collect_slugs base all_slugs (slugs @ [s])
      else collect_slugs base all_slugs slugs)"

text \<open>
  Lines 135-141: \<open>while True\<close>, up to the assignment of \<open>self.slug\<close>. The loop has no bound,
  so the function is partial: \<open>None\<close> is a loop that never ends.
\<close>

partial_function (option) suffix_loop ::
  "framework \<Rightarrow> string \<Rightarrow> string list \<Rightarrow> nat \<Rightarrow> string option" where
  "suffix_loop fw nm slugs i =
     (if slugify fw nm (Some i) \<notin> set slugs then Some (slugify fw nm (Some i))
      else suffix_loop fw nm slugs (i + 1))"

declare suffix_loop.simps [code]

record outcome =
  raised :: "error option"
  self :: article
  db :: store

text \<open>The end of a \<open>return super(Article, self).save(*args, **kwargs)\<close>.\<close>

definition finish :: "article \<Rightarrow> error \<times> store \<times> nat option + store \<times> nat \<Rightarrow> outcome" where
  "finish a r =
     (case r of
        Inl (e, st', k) \<Rightarrow> \<lparr>raised = Some e, self = a\<lparr>pk := k\<rparr>, db = st'\<rparr>
      | Inr (st', i) \<Rightarrow> \<lparr>raised = None, self = a\<lparr>pk := Some i\<rparr>, db = st'\<rparr>)"

text \<open>
  \<open>save\<close> returns what it raised (if anything), the instance and the database as it leaves
  them; \<open>codes\<close> is the module's \<open>LANGUAGE_CODES\<close>. The \<open>for\<close> loop over \<open>LANGUAGE_CODES\<close>
  (line 120) leaves the function in its first pass, by the \<open>return\<close> of line 140 or by an
  exception, so only the first code is ever passed to the query; with no code at all the
  function falls off its end and returns without saving. After a failed direct save the
  function goes on with the database and the \<open>self.id\<close> that the failed call left.
\<close>

definition save :: "framework \<Rightarrow> lang list \<Rightarrow> store \<Rightarrow> article \<Rightarrow> outcome option" where
  "save fw codes st a =
     (case ensure_author st a of
        Inl e \<Rightarrow> Some \<lparr>raised = Some e, self = a, db = st\<rparr>
      | Inr (st1, a1) \<Rightarrow>
          if slug a1 = [] then
            (case name a1 of
               None \<Rightarrow> Some \<lparr>raised = Some AttributeError, self = a1, db = st1\<rparr>
             | Some nm \<Rightarrow>
                 let a2 = a1\<lparr>slug := slugify fw nm None\<rparr> in
                 (case super_save fw st1 a2 of
                    Inr (st2, i) \<Rightarrow> Some \<lparr>raised = None, self = a2\<lparr>pk := Some i\<rparr>, db = st2\<rparr>
                  | Inl (e, st2, k) \<Rightarrow>
                      let a3 = a2\<lparr>pk := k\<rparr> in
                      if is_IntegrityError e then
                        (case codes of
                           [] \<Rightarrow> Some \<lparr>raised = None, self = a3, db = st2\<rparr>
                         | lang # rest \<Rightarrow>
                             (case values_list fw st2 lang (pk a3) of
                                Inl e' \<Rightarrow> Some \<lparr>raised = Some e', self = a3, db = st2\<rparr>
                              | Inr all_slugs \<Rightarrow>
                                  (case suffix_loop fw nm (collect_slugs (slug a3) all_slugs []) 1 of
                                     None \<Rightarrow> None
                                   | Some s \<Rightarrow>
                                       Some (finish (a3\<lparr>slug := s\<rparr>)
                                               (super_save fw st2 (a3\<lparr>slug := s\<rparr>))))))
                      else Some \<lparr>raised = Some e, self = a3, db = st2\<rparr>))
          else Some (finish a1 (super_save fw st1 a1)))"

text \<open>A sequence of calls of \<open>save\<close>, one after the other, on the same database.\<close>

fun saves :: "framework \<Rightarrow> lang list \<Rightarrow> store \<Rightarrow> article list \<Rightarrow> store option" where
  "saves fw codes st [] = Some st"
| "saves fw codes st (a # rest) =
     (case save fw codes st a of None \<Rightarrow> None | Some r \<Rightarrow> saves fw codes (db r) rest)"

subsection \<open>A model of the three callees\<close>

text \<open>
  \<open>TranslatableModel.save\<close> writes the article row first and the translation row of the
  instance's current language second, each in a statement of its own. The article row is
  inserted (under a new key, which \<open>self.id\<close> takes) or replaced; the database refuses a
  row without owner, and then nothing is written. The translation row is inserted or
  replaced; the database refuses it when another translation row has the same
  \<open>(language_code, slug)\<close>, and then the article row stays written and \<open>self.id\<close> stays set.
\<close>

definition TranslatableModel_save ::
  "store \<Rightarrow> article \<Rightarrow> error \<times> store \<times> nat option + store \<times> nat" where
  "TranslatableModel_save st a =
     (case owner a of
        None \<Rightarrow> Inl (IntegrityError not_null_owner, st, pk a)
      | Some u \<Rightarrow>
          let i = (case pk a of None \<Rightarrow> next_id (map row_id (articles st)) | Some k \<Rightarrow> k);
              st1 = st\<lparr>articles := filter (\<lambda>r. row_id r \<noteq> i) (articles st) @
                          [\<lparr>row_id = i, row_author = author a, row_owner = user_id u,
                            row_publishing_date = publishing_date a\<rparr>]\<rparr>;
              others = filter (\<lambda>t. \<not> (master t = i \<and> t_language_code t = language_code a))
                         (translation_table st)
          in if (language_code a, slug a) \<in> set (map (\<lambda>t. (t_language_code t, t_slug t)) others)
             then Inl (IntegrityError unique_language_code_slug, st1, Some i)
             else Inr (st1\<lparr>translation_table := others @
                             [\<lparr>master = i, t_language_code = language_code a,
                               t_title = title a, t_slug = slug a\<rparr>]\<rparr>, i))"

text \<open>
  The query of lines 130-131. \<open>language(lang)\<close> only sets the language of the objects a
  query set returns; it does not restrict the join that \<open>translations__slug\<close> makes. So
  the result holds, for every article other than the one excluded, the slugs of all its
  translations, in whatever language, and \<open>None\<close> for an article with no translation at
  all. (\<open>exclude(id=None)\<close> excludes nothing.)
\<close>

definition slug_values :: "store \<Rightarrow> lang \<Rightarrow> nat option \<Rightarrow> string option list" where
  "slug_values st lang excluded =
     concat (map (\<lambda>r. case filter (\<lambda>t. master t = row_id r) (translation_table st) of
                         [] \<Rightarrow> [None]
                       | ts \<Rightarrow> map (\<lambda>t. Some (t_slug t)) ts)
                 (filter (\<lambda>r. Some (row_id r) \<noteq> excluded) (articles st)))"

text \<open>
  \<open>django.utils.text.slugify\<close> on ASCII text only (Django first normalises other text to
  ASCII, which is not modelled; the examples below are ASCII): drop every character that
  is not a letter, a digit, an underscore, white space or a hyphen; strip white space at
  both ends; lower the case; replace each run of hyphens and white space by one hyphen.
  White space is what Python's regular expressions take for white space in a string:
  the characters 9 to 13 (tab to carriage return), the separators 28 to 31, and the space.
\<close>

definition whitespace :: "char \<Rightarrow> bool" where
  "whitespace c = (of_char c \<in> {9, 10, 11, 12, 13, 28, 29, 30, 31, 32 :: nat})"

definition word_char :: "char \<Rightarrow> bool" where
  "word_char c =
     (let n = of_char c :: nat
      in (48 \<le> n \<and> n \<le> 57) \<or> (65 \<le> n \<and> n \<le> 90) \<or> (97 \<le> n \<and> n \<le> 122) \<or> n = 95)"

definition lower :: "char \<Rightarrow> char" where
  "lower c = (let n = of_char c :: nat in if 65 \<le> n \<and> n \<le> 90 then char_of (n + 32) else c)"

definition separator :: "char \<Rightarrow> bool" where
  "separator c = (c = CHR ''-'' \<or> whitespace c)"

function collapse :: "string \<Rightarrow> string" where
  "collapse [] = []"
| "collapse (c # cs) =
     (if separator c then CHR ''-'' # collapse (dropWhile separator cs) else c # collapse cs)"
  by pat_completeness auto
termination
  by (relation "measure length") (auto simp: le_imp_less_Suc length_dropWhile_le)

definition strip :: "string \<Rightarrow> string" where
  "strip s = rev (dropWhile whitespace (rev (dropWhile whitespace s)))"

definition text_slugify :: "string \<Rightarrow> string" where
  "text_slugify v =
     collapse (map lower (strip (filter (\<lambda>c. word_char c \<or> whitespace c \<or> c = CHR ''-'') v)))"

definition django :: framework where
  "django = \<lparr>default_slugify = text_slugify, super_save = TranslatableModel_save,
             values_list = (\<lambda>st lang excluded. Inr (slug_values st lang excluded))\<rparr>"

subsection \<open>\<open>LatestEntriesPlugin.get_articles\<close> (lines 166-168)\<close>

text \<open>
  \<open>Article.objects.active_translations()\<close> is parler's filter on the translation table:
  the distinct article rows that have a translation in one of the active languages, in
  the model's default ordering \<open>-publishing_date\<close>
  (line 86); \<open>active\<close> is the list of those languages (the current language and its
  fallbacks). Slicing a Django query set with a negative bound fails the assertion
  "Negative indexing is not supported".
\<close>

record LatestEntriesPlugin =
  latest_entries :: int

definition active_translations :: "lang list \<Rightarrow> store \<Rightarrow> row list" where
  "active_translations active st =
     sort_key (\<lambda>r. - row_publishing_date r)
       (remdups
          (filter (\<lambda>r. \<exists>t \<in> set (translation_table st).
                           master t = row_id r \<and> t_language_code t \<in> set active)
             (articles st)))"

definition get_articles :: "lang list \<Rightarrow> store \<Rightarrow> LatestEntriesPlugin \<Rightarrow> error + row list" where
  "get_articles active st p =
     (let articles = active_translations active st
      in if latest_entries p < 0 then Inl AssertionError
         else Inr (take (nat (latest_entries p)) articles))"

subsection \<open>Example data\<close>

text \<open>
  A user, an article titled "My Story" as the class makes it (no slug, no author, no
  attribute \<open>name\<close>), and the database after one article with the slug "my-story" was
  saved in English.
\<close>

definition author_user :: user where
  "author_user = \<lparr>user_id = 7, first_name = ''Ann'', last_name = ''Lee''\<rparr>"

definition my_story :: article where
  "my_story = \<lparr>pk = None, language_code = ''en'', title = ''My Story'', slug = [], name = None,
                author = None, owner = Some author_user, publishing_date = 10\<rparr>"

definition story_store :: store where
  "story_store =
     \<lparr>persons = [\<lparr>person_id = 1, person_user = Some 7, person_name = ''Ann Lee''\<rparr>],
      articles = [\<lparr>row_id = 1, row_author = Some 1, row_owner = 7, row_publishing_date = 10\<rparr>],
      translation_table = [\<lparr>master = 1, t_language_code = ''en'', t_title = ''My Story'',
                             t_slug = ''my-story''\<rparr>]\<rparr>"

text \<open>
  The same article with an attribute \<open>name\<close> assigned and its author given; an article
  with no owner; an article with neither owner nor author; a storage layer that is
  down; and one in which the slug query fails.
\<close>

definition named_story :: article where
  "named_story = my_story\<lparr>name := Some ''My Story'', author := Some 1\<rparr>"





text \<open>
  The database of \<open>story_store\<close> after a save of a new article with the slug "my-story"
  was refused: the article row is written, the translation row is not.
\<close>

definition refused_store :: store where
  "refused_store =
     story_store\<lparr>articles := articles story_store @
                   [\<lparr>row_id = 2, row_author = Some 1, row_owner = 7, row_publishing_date = 10\<rparr>]\<rparr>"


text \<open>
  Four articles with their publishing dates, three of them with an English translation.
\<close>

definition dated :: "nat \<Rightarrow> int \<Rightarrow> row" where
  "dated i d = \<lparr>row_id = i, row_author = Some 1, row_owner = 7, row_publishing_date = d\<rparr>"

definition in_english :: "nat \<Rightarrow> translation" where
  "in_english i = \<lparr>master = i, t_language_code = ''en'', t_title = ''t'', t_slug = decimal i\<rparr>"

definition archive :: store where
  "archive = \<lparr>persons = [], articles = [dated 1 30, dated 2 10, dated 3 50, dated 4 20],
              translation_table = [in_english 1, in_english 2, in_english 3]\<rparr>"

section \<open>Results\<close>

subsection \<open>The counter loop and the collected slugs\<close>

text \<open>
  The decimal rendering of the counter is injective, so the candidates of the loop are
  pairwise different and a finite list cannot hold them all.
\<close>

lemma digit_inj: "a < 10 \<Longrightarrow> b < 10 \<Longrightarrow> digit a = digit b \<Longrightarrow> a = b"
proof -
  assume a: "a < 10" and b: "b < 10" and e: "digit a = digit b"
  from e have "(of_char (char_of (48 + a)) :: nat) = of_char (char_of (48 + b))"
    by (simp add: digit_def)
  with a b show "a = b" by simp
qed

lemma decimal_small: "n < 10 \<Longrightarrow> decimal n = [digit n]"
  by (subst decimal.simps) simp

lemma decimal_large: "\<not> n < 10 \<Longrightarrow> decimal n = decimal (n div 10) @ [digit (n mod 10)]"
  by (subst decimal.simps) simp

lemma decimal_not_Nil: "decimal n \<noteq> []"
  by (cases "n < 10") (simp_all add: decimal_small decimal_large)

lemma decimal_inj: "decimal m = decimal n \<Longrightarrow> m = n"
proof (induction m arbitrary: n rule: decimal.induct)
  case (1 m)
  show ?case
  proof (cases "m < 10")
    case m: True
    show ?thesis
    proof (cases "n < 10")
      case True
      with m "1.prems" show ?thesis by (simp add: decimal_small digit_inj)
    next
      case False
      with m "1.prems" decimal_not_Nil [of "n div 10"] show ?thesis
        by (simp add: decimal_small decimal_large)
    qed
  next
    case m: False
    show ?thesis
    proof (cases "n < 10")
      case True
      with m "1.prems" decimal_not_Nil [of "m div 10"] show ?thesis
        by (simp add: decimal_small decimal_large)
    next
      case False
      with m "1.prems" have d: "decimal (m div 10) = decimal (n div 10)"
        and l: "digit (m mod 10) = digit (n mod 10)"
        by (simp_all add: decimal_large)
      from "1.IH" [OF m d] have "m div 10 = n div 10" .
      moreover from l have "m mod 10 = n mod 10" by (simp add: digit_inj)
      ultimately show ?thesis by (metis div_mult_mod_eq)
    qed
  qed
qed

lemma slugify_inj: "slugify fw nm (Some i) = slugify fw nm (Some j) \<Longrightarrow> i = j"
  by (simp add: slugify_def decimal_inj)

lemma suffix_loop_stop:
  "slugify fw nm (Some i) \<notin> set slugs \<Longrightarrow> suffix_loop fw nm slugs i = Some (slugify fw nm (Some i))"
  by (subst suffix_loop.simps) simp

lemma suffix_loop_next:
  "slugify fw nm (Some i) \<in> set slugs \<Longrightarrow> suffix_loop fw nm slugs i = suffix_loop fw nm slugs (Suc i)"
  by (subst suffix_loop.simps) simp

lemma suffix_loop_finds:
  "slugify fw nm (Some (i + k)) \<notin> set slugs \<Longrightarrow>
   \<exists>j. i \<le> j \<and> suffix_loop fw nm slugs i = Some (slugify fw nm (Some j)) \<and>
       slugify fw nm (Some j) \<notin> set slugs \<and>
       (\<forall>l. i \<le> l \<and> l < j \<longrightarrow> slugify fw nm (Some l) \<in> set slugs)"
proof (induction k arbitrary: i)
  case 0
  then show ?case by (auto simp: suffix_loop_stop intro!: exI [of _ i])
next
  case (Suc k)
  show ?case
  proof (cases "slugify fw nm (Some i) \<in> set slugs")
    case False
    then show ?thesis by (auto simp: suffix_loop_stop intro!: exI [of _ i])
  next
    case True
    from Suc.prems have "slugify fw nm (Some (Suc i + k)) \<notin> set slugs" by simp
    from Suc.IH [OF this] obtain j where j: "Suc i \<le> j"
      "suffix_loop fw nm slugs (Suc i) = Some (slugify fw nm (Some j))"
      "slugify fw nm (Some j) \<notin> set slugs"
      "\<forall>l. Suc i \<le> l \<and> l < j \<longrightarrow> slugify fw nm (Some l) \<in> set slugs"
      by blast
    have "\<forall>l. i \<le> l \<and> l < j \<longrightarrow> slugify fw nm (Some l) \<in> set slugs"
    proof (intro allI impI)
      fix l assume "i \<le> l \<and> l < j"
      then show "slugify fw nm (Some l) \<in> set slugs"
        using True j(4) by (cases "l = i") auto
    qed
    with j True show ?thesis
      by (intro exI [of _ j]) (simp add: suffix_loop_next)
  qed
qed

lemma free_counter: "\<exists>k. slugify fw nm (Some (i + k)) \<notin> set slugs"
proof -
  have "inj (\<lambda>k. slugify fw nm (Some k))"
    by (rule injI) (rule slugify_inj)
  then have "finite ((\<lambda>k. slugify fw nm (Some k)) -` set slugs)"
    by (intro finite_vimageI) simp_all
  then obtain m where m: "\<forall>k \<in> (\<lambda>k. slugify fw nm (Some k)) -` set slugs. k < m"
    using finite_nat_set_iff_bounded by blast
  have "slugify fw nm (Some (i + m)) \<notin> set slugs"
  proof
    assume "slugify fw nm (Some (i + m)) \<in> set slugs"
    with m have "i + m < m" by blast
    then show False by simp
  qed
  then show ?thesis ..
qed

lemma suffix_loop_total:
  "\<exists>j. i \<le> j \<and> suffix_loop fw nm slugs i = Some (slugify fw nm (Some j)) \<and>
       slugify fw nm (Some j) \<notin> set slugs \<and>
       (\<forall>l. i \<le> l \<and> l < j \<longrightarrow> slugify fw nm (Some l) \<in> set slugs)"
  using free_counter suffix_loop_finds by blast




subsection \<open>The paths through \<open>save\<close>\<close>

text \<open>One equation per path, and the case analysis over all of them.\<close>

lemma save_author_error:
  "ensure_author st a = Inl e \<Longrightarrow> save fw codes st a = Some \<lparr>raised = Some e, self = a, db = st\<rparr>"
  by (simp add: save_def)

lemma save_slug_set:
  "ensure_author st a = Inr (st1, a1) \<Longrightarrow> slug a1 \<noteq> [] \<Longrightarrow>
   save fw codes st a = Some (finish a1 (super_save fw st1 a1))"
  by (simp add: save_def)

lemma save_no_name:
  "ensure_author st a = Inr (st1, a1) \<Longrightarrow> slug a1 = [] \<Longrightarrow> name a1 = None \<Longrightarrow>
   save fw codes st a = Some \<lparr>raised = Some AttributeError, self = a1, db = st1\<rparr>"
  by (simp add: save_def)

lemma save_direct:
  "ensure_author st a = Inr (st1, a1) \<Longrightarrow> slug a1 = [] \<Longrightarrow> name a1 = Some nm \<Longrightarrow>
   super_save fw st1 (a1\<lparr>slug := slugify fw nm None\<rparr>) = Inr (st2, i) \<Longrightarrow>
   save fw codes st a =
     Some \<lparr>raised = None, self = a1\<lparr>slug := slugify fw nm None, pk := Some i\<rparr>, db = st2\<rparr>"
  by (simp add: save_def)

lemma save_other_error:
  "ensure_author st a = Inr (st1, a1) \<Longrightarrow> slug a1 = [] \<Longrightarrow> name a1 = Some nm \<Longrightarrow>
   super_save fw st1 (a1\<lparr>slug := slugify fw nm None\<rparr>) = Inl (e, st2, k) \<Longrightarrow>
   \<not> is_IntegrityError e \<Longrightarrow>
   save fw codes st a =
     Some \<lparr>raised = Some e, self = a1\<lparr>slug := slugify fw nm None, pk := k\<rparr>, db = st2\<rparr>"
  by (simp add: save_def)

lemma save_no_codes:
  "ensure_author st a = Inr (st1, a1) \<Longrightarrow> slug a1 = [] \<Longrightarrow> name a1 = Some nm \<Longrightarrow>
   super_save fw st1 (a1\<lparr>slug := slugify fw nm None\<rparr>) = Inl (e, st2, k) \<Longrightarrow>
   is_IntegrityError e \<Longrightarrow>
   save fw [] st a =
     Some \<lparr>raised = None, self = a1\<lparr>slug := slugify fw nm None, pk := k\<rparr>, db = st2\<rparr>"
  by (simp add: save_def)

lemma save_query_error:
  "ensure_author st a = Inr (st1, a1) \<Longrightarrow> slug a1 = [] \<Longrightarrow> name a1 = Some nm \<Longrightarrow>
   super_save fw st1 (a1\<lparr>slug := slugify fw nm None\<rparr>) = Inl (e, st2, k) \<Longrightarrow>
   is_IntegrityError e \<Longrightarrow> values_list fw st2 lang k = Inl e' \<Longrightarrow>
   save fw (lang # rest) st a =
     Some \<lparr>raised = Some e', self = a1\<lparr>slug := slugify fw nm None, pk := k\<rparr>, db = st2\<rparr>"
  by (simp add: save_def)

lemma save_suffix:
  "ensure_author st a = Inr (st1, a1) \<Longrightarrow> slug a1 = [] \<Longrightarrow> name a1 = Some nm \<Longrightarrow>
   super_save fw st1 (a1\<lparr>slug := slugify fw nm None\<rparr>) = Inl (e, st2, k) \<Longrightarrow>
   is_IntegrityError e \<Longrightarrow> values_list fw st2 lang k = Inr all_slugs \<Longrightarrow>
   suffix_loop fw nm (collect_slugs (slugify fw nm None) all_slugs []) 1 = Some s \<Longrightarrow>
   save fw (lang # rest) st a =
     Some (finish (a1\<lparr>pk := k, slug := s\<rparr>) (super_save fw st2 (a1\<lparr>pk := k, slug := s\<rparr>)))"
  by (simp add: save_def)

lemma save_cases:
  obtains
    (author_error) e where "ensure_author st a = Inl e"
      "save fw codes st a = Some \<lparr>raised = Some e, self = a, db = st\<rparr>"
  | (slug_set) st1 a1 where "ensure_author st a = Inr (st1, a1)" "slug a1 \<noteq> []"
      "save fw codes st a = Some (finish a1 (super_save fw st1 a1))"
  | (no_name) st1 a1 where "ensure_author st a = Inr (st1, a1)" "slug a1 = []" "name a1 = None"
      "save fw codes st a = Some \<lparr>raised = Some AttributeError, self = a1, db = st1\<rparr>"
  | (direct) st1 a1 nm st2 i where "ensure_author st a = Inr (st1, a1)" "slug a1 = []"
      "name a1 = Some nm" "super_save fw st1 (a1\<lparr>slug := slugify fw nm None\<rparr>) = Inr (st2, i)"
      "save fw codes st a =
         Some \<lparr>raised = None, self = a1\<lparr>slug := slugify fw nm None, pk := Some i\<rparr>, db = st2\<rparr>"
  | (other_error) st1 a1 nm e st2 k where "ensure_author st a = Inr (st1, a1)" "slug a1 = []"
      "name a1 = Some nm"
      "super_save fw st1 (a1\<lparr>slug := slugify fw nm None\<rparr>) = Inl (e, st2, k)"
      "\<not> is_IntegrityError e"
      "save fw codes st a =
         Some \<lparr>raised = Some e, self = a1\<lparr>slug := slugify fw nm None, pk := k\<rparr>, db = st2\<rparr>"
  | (no_codes) st1 a1 nm e st2 k where "ensure_author st a = Inr (st1, a1)" "slug a1 = []"
      "name a1 = Some nm"
      "super_save fw st1 (a1\<lparr>slug := slugify fw nm None\<rparr>) = Inl (e, st2, k)"
      "is_IntegrityError e" "codes = []"
      "save fw codes st a =
         Some \<lparr>raised = None, self = a1\<lparr>slug := slugify fw nm None, pk := k\<rparr>, db = st2\<rparr>"
  | (query_error) st1 a1 nm e st2 k lang rest e' where "ensure_author st a = Inr (st1, a1)"
      "slug a1 = []" "name a1 = Some nm"
      "super_save fw st1 (a1\<lparr>slug := slugify fw nm None\<rparr>) = Inl (e, st2, k)"
      "is_IntegrityError e" "codes = lang # rest" "values_list fw st2 lang k = Inl e'"
      "save fw codes st a =
         Some \<lparr>raised = Some e', self = a1\<lparr>slug := slugify fw nm None, pk := k\<rparr>, db = st2\<rparr>"
  | (suffix) st1 a1 nm e st2 k lang rest all_slugs j where "ensure_author st a = Inr (st1, a1)"
      "slug a1 = []" "name a1 = Some nm"
      "super_save fw st1 (a1\<lparr>slug := slugify fw nm None\<rparr>) = Inl (e, st2, k)"
      "is_IntegrityError e" "codes = lang # rest" "values_list fw st2 lang k = Inr all_slugs"
      "1 \<le> j"
      "slugify fw nm (Some j) \<notin> set (collect_slugs (slugify fw nm None) all_slugs [])"
      "\<forall>l. 1 \<le> l \<and> l < j \<longrightarrow>
         slugify fw nm (Some l) \<in> set (collect_slugs (slugify fw nm None) all_slugs [])"
      "save fw codes st a =
         Some (finish (a1\<lparr>pk := k, slug := slugify fw nm (Some j)\<rparr>)
                (super_save fw st2 (a1\<lparr>pk := k, slug := slugify fw nm (Some j)\<rparr>)))"
proof (cases "ensure_author st a")
  case (Inl e)
  then show ?thesis using author_error save_author_error by blast
next
  case (Inr p)
  then obtain st1 a1 where ea: "ensure_author st a = Inr (st1, a1)" by (cases p) simp
  show ?thesis
  proof (cases "slug a1 = []")
    case False
    with ea show ?thesis using slug_set save_slug_set by blast
  next
    case empty: True
    show ?thesis
    proof (cases "name a1")
      case None
      with ea empty show ?thesis using no_name save_no_name by blast
    next
      case (Some nm)
      show ?thesis
      proof (cases "super_save fw st1 (a1\<lparr>slug := slugify fw nm None\<rparr>)")
        case (Inr q)
        then obtain st2 i where "super_save fw st1 (a1\<lparr>slug := slugify fw nm None\<rparr>) = Inr (st2, i)"
          by (cases q) simp
        with ea empty Some show ?thesis using direct save_direct by blast
      next
        case (Inl q)
        then obtain e st2 k where
          ss: "super_save fw st1 (a1\<lparr>slug := slugify fw nm None\<rparr>) = Inl (e, st2, k)"
          by (cases q) simp
        show ?thesis
        proof (cases "is_IntegrityError e")
          case False
          with ea empty Some ss show ?thesis using other_error save_other_error by blast
        next
          case ie: True
          show ?thesis
          proof (cases codes)
            case Nil
            with ea empty Some ss ie show ?thesis using no_codes save_no_codes by blast
          next
            case (Cons lang rest)
            show ?thesis
            proof (cases "values_list fw st2 lang k")
              case qe: (Inl e')
              from save_query_error [OF ea empty Some ss ie qe] Cons
              have "save fw codes st a =
                Some \<lparr>raised = Some e', self = a1\<lparr>slug := slugify fw nm None, pk := k\<rparr>,
                      db = st2\<rparr>" by simp
              with ea empty Some ss ie Cons qe show ?thesis using query_error by blast
            next
              case q: (Inr all_slugs)
              obtain j where j: "1 \<le> j"
                "suffix_loop fw nm (collect_slugs (slugify fw nm None) all_slugs []) 1 =
                   Some (slugify fw nm (Some j))"
                "slugify fw nm (Some j) \<notin> set (collect_slugs (slugify fw nm None) all_slugs [])"
                "\<forall>l. 1 \<le> l \<and> l < j \<longrightarrow>
                   slugify fw nm (Some l) \<in> set (collect_slugs (slugify fw nm None) all_slugs [])"
                using suffix_loop_total [of 1 fw nm] by blast
              from save_suffix [OF ea empty Some ss ie q j(2)] Cons
              have "save fw codes st a =
                Some (finish (a1\<lparr>pk := k, slug := slugify fw nm (Some j)\<rparr>)
                       (super_save fw st2 (a1\<lparr>pk := k, slug := slugify fw nm (Some j)\<rparr>)))"
                by simp
              with ea empty Some ss ie Cons q j show ?thesis using suffix by blast
            qed
          qed
        qed
      qed
    qed
  qed
qed

lemma save_total: "\<exists>r. save fw codes st a = Some r"
  by (rule save_cases [of st a fw codes]) blast+

lemma get_or_create_tables:
  "get_or_create st u nm = Inr (st', p) \<Longrightarrow>
   articles st' = articles st \<and> translation_table st' = translation_table st"
  by (auto simp: get_or_create_def Let_def split: list.splits)

lemma ensure_author_Inr:
  assumes "ensure_author st a = Inr (st1, a1)"
  shows "a1 = a\<lparr>author := author a1\<rparr>" and "author a1 \<noteq> None"
    and "articles st1 = articles st" and "translation_table st1 = translation_table st"
  using assms
  by (auto simp: ensure_author_def split: option.splits sum.splits if_splits
           dest: get_or_create_tables)

lemma ensure_author_slug: "ensure_author st a = Inr (st1, a1) \<Longrightarrow> slug a1 = slug a"
  by (auto simp: ensure_author_def split: option.splits sum.splits if_splits)

lemma ensure_author_name: "ensure_author st a = Inr (st1, a1) \<Longrightarrow> name a1 = name a"
  by (auto simp: ensure_author_def split: option.splits sum.splits if_splits)

lemma ensure_author_given:
  "author a = Some p \<Longrightarrow> ensure_author st a = Inr (st1, a1) \<Longrightarrow> st1 = st \<and> a1 = a"
  by (auto simp: ensure_author_def split: if_splits)

lemma slug_finish: "slug (self (finish a r)) = slug a"
  by (auto simp: finish_def split: sum.splits)

lemma author_finish: "author (self (finish a r)) = author a"
  by (auto simp: finish_def split: sum.splits)

subsection \<open>The slug of a saved article\<close>

text \<open>
  C1. The scenario of the spec: an article with the slug "my-story" exists in English
  (\<open>story_store\<close> is the database after it was saved), and a new article titled
  "My Story" is saved in English with no slug. The spec expects it to get the slug
  \<open>my-story_1\<close>, and a third one \<open>my-story_2\<close>. The code raises \<open>AttributeError\<close> at
  \<open>self.name\<close> (line 114): the article has a \<open>title\<close> and no \<open>name\<close>. Nothing is
  written: the only slug in the database is still "my-story".
\<close>

theorem my_story_scenario:
  "save django [''en''] empty_store (my_story\<lparr>slug := ''my-story''\<rparr>) =
     Some \<lparr>raised = None,
           self = my_story\<lparr>pk := Some 1, slug := ''my-story'', author := Some 1\<rparr>,
           db = story_store\<rparr> \<and>
   save django [''en''] story_store my_story =
     Some \<lparr>raised = Some AttributeError, self = my_story\<lparr>author := Some 1\<rparr>, db = story_store\<rparr> \<and>
   map t_slug (translation_table story_store) = [''my-story'']"
  by code_simp

text \<open>
  What the scenario gives once the instance carries an attribute \<open>name\<close> holding the
  title: the slugs \<open>my-story_1\<close> and then \<open>my-story_2\<close>.
\<close>

lemma named_story_scenario:
  "text_slugify ''My Story'' = ''my-story'' \<and>
   map (map_option (\<lambda>st. map t_slug (translation_table st)))
     [saves django [''en''] story_store [my_story\<lparr>name := Some ''My Story''\<rparr>],
      saves django [''en''] story_store
        [my_story\<lparr>name := Some ''My Story''\<rparr>, my_story\<lparr>name := Some ''My Story''\<rparr>]] =
     [Some [''my-story'', ''my-story_1''], Some [''my-story'', ''my-story_1'', ''my-story_2'']]"
  by code_simp

text \<open>
  C2. The base of the slug is computed from \<open>self.name\<close>, not from the title. Whatever its
  title, an article saved with no slug and no attribute \<open>name\<close> makes \<open>save\<close> raise:
  \<open>AttributeError\<close> if the author could be resolved. No direct save is attempted, no
  slug is assigned and no article or translation row is written.
\<close>

theorem save_without_slug_needs_name:
  assumes "slug a = []" and "name a = None"
  shows "\<exists>r. save fw codes st a = Some r \<and> raised r \<noteq> None \<and>
           ((\<forall>e. ensure_author st a \<noteq> Inl e) \<longrightarrow> raised r = Some AttributeError) \<and>
           slug (self r) = [] \<and>
           articles (db r) = articles st \<and> translation_table (db r) = translation_table st"
proof (cases "ensure_author st a")
  case (Inl e)
  with assms show ?thesis by (simp add: save_author_error)
next
  case (Inr p)
  then obtain st1 a1 where ea: "ensure_author st a = Inr (st1, a1)" by (cases p) simp
  from ea assms have "slug a1 = []" "name a1 = None"
    by (simp_all add: ensure_author_slug ensure_author_name)
  with ea have "save fw codes st a = Some \<lparr>raised = Some AttributeError, self = a1, db = st1\<rparr>"
    by (simp add: save_no_name)
  with ea \<open>slug a1 = []\<close> show ?thesis by (simp add: ensure_author_Inr(3,4))
qed

theorem save_without_slug_needs_name_witness:
  "slug (my_story\<lparr>title := ''Another Title''\<rparr>) = [] \<and> name (my_story\<lparr>title := ''Another Title''\<rparr>) = None \<and>
   (\<exists>r. save django [''en''] empty_store (my_story\<lparr>title := ''Another Title''\<rparr>) = Some r \<and>
        raised r = Some AttributeError \<and> articles (db r) = [] \<and> translation_table (db r) = [])"
proof -
  have h: "slug (my_story\<lparr>title := ''Another Title''\<rparr>) = []"
    "name (my_story\<lparr>title := ''Another Title''\<rparr>) = None"
    by (simp_all add: my_story_def)
  have "\<forall>e. ensure_author empty_store (my_story\<lparr>title := ''Another Title''\<rparr>) \<noteq> Inl e"
    by (simp add: ensure_author_def my_story_def get_or_create_def empty_store_def)
  with save_without_slug_needs_name [OF h, of django "[''en'']" empty_store] h
  show ?thesis by (auto simp: empty_store_def)
qed

text \<open>
  C5. An article whose slug is set is saved as it is: after the author is resolved, the
  result is that of the inherited \<open>save\<close> on the instance, the slug is the one given, and
  neither \<open>default_slugify\<close>, nor the query for the existing slugs, nor the language
  codes have any influence on the result.
\<close>

theorem save_with_slug_passes_through:
  assumes "slug a \<noteq> []"
  shows "\<exists>r. save fw codes st a = Some r \<and> slug (self r) = slug a \<and>
           (\<forall>e. ensure_author st a = Inl e \<longrightarrow> r = \<lparr>raised = Some e, self = a, db = st\<rparr>) \<and>
           (\<forall>st1 a1. ensure_author st a = Inr (st1, a1) \<longrightarrow>
              r = finish a1 (super_save fw st1 a1)) \<and>
           (\<forall>d q codes'. save (fw\<lparr>default_slugify := d, values_list := q\<rparr>) codes' st a = Some r)"
proof (cases "ensure_author st a")
  case (Inl e)
  then show ?thesis by (simp add: save_author_error)
next
  case (Inr p)
  then obtain st1 a1 where ea: "ensure_author st a = Inr (st1, a1)" by (cases p) simp
  with assms have s: "slug a1 \<noteq> []" by (simp add: ensure_author_slug)
  have "\<And>fw' codes'. save fw' codes' st a = Some (finish a1 (super_save fw' st1 a1))"
    using ea s by (rule save_slug_set)
  then show ?thesis using ea assms by (simp add: slug_finish ensure_author_slug)
qed

theorem save_with_slug_passes_through_witness:
  "slug (my_story\<lparr>slug := ''my-story''\<rparr>) \<noteq> [] \<and>
   save django [''en''] story_store (my_story\<lparr>slug := ''my-story''\<rparr>) =
     Some \<lparr>raised = Some (IntegrityError unique_language_code_slug),
           self = my_story\<lparr>pk := Some 2, slug := ''my-story'', author := Some 1\<rparr>,
           db = refused_store\<rparr> \<and>
   (\<exists>r. save django [''en''] story_store (my_story\<lparr>slug := ''my-story''\<rparr>) = Some r \<and>
        slug (self r) = ''my-story'' \<and>
        save (django\<lparr>default_slugify := (\<lambda>v. []), values_list := (\<lambda>st l x. Inr [])\<rparr>) []
          story_store (my_story\<lparr>slug := ''my-story''\<rparr>) = Some r)"
proof -
  have h: "slug (my_story\<lparr>slug := ''my-story''\<rparr>) \<noteq> []" by simp
  have e: "save django [''en''] story_store (my_story\<lparr>slug := ''my-story''\<rparr>) =
     Some \<lparr>raised = Some (IntegrityError unique_language_code_slug),
           self = my_story\<lparr>pk := Some 2, slug := ''my-story'', author := Some 1\<rparr>,
           db = refused_store\<rparr>"
    by code_simp
  from save_with_slug_passes_through [OF h, of django "[''en'']" story_store] h e
  show ?thesis by auto
qed

text \<open>
  C8. The counter loop ends, whatever the list of collected slugs: it returns the
  candidate of the least counter from 1 on that is not in the list. So \<open>save\<close> always
  returns or raises.
\<close>

theorem suffix_search_terminates:
  "(\<exists>i. 1 \<le> i \<and> suffix_loop fw nm slugs 1 = Some (slugify fw nm (Some i)) \<and>
        slugify fw nm (Some i) \<notin> set slugs \<and>
        (\<forall>j. 1 \<le> j \<and> j < i \<longrightarrow> slugify fw nm (Some j) \<in> set slugs)) \<and>
   (\<exists>r. save fw codes st a = Some r)"
  using suffix_loop_total [of 1 fw nm slugs] save_total [of fw codes st a] by blast

theorem suffix_search_terminates_witness:
  "(\<exists>i. 1 \<le> i \<and>
        suffix_loop django ''My Story'' [''my-story_1'', ''my-story''] 1 =
          Some (slugify django ''My Story'' (Some i))) \<and>
   suffix_loop django ''My Story'' [''my-story_1'', ''my-story''] 1 = Some ''my-story_2'' \<and>
   (\<exists>r. save django [''en''] story_store (my_story\<lparr>name := Some ''My Story''\<rparr>) = Some r)"
proof -
  have "suffix_loop django ''My Story'' [''my-story_1'', ''my-story''] 1 = Some ''my-story_2''"
    by code_simp
  with suffix_search_terminates [of django "''My Story''" "[''my-story_1'', ''my-story'']"
      "[''en'']" story_store "my_story\<lparr>name := Some ''My Story''\<rparr>"]
  show ?thesis by blast
qed






subsection \<open>Exceptions during \<open>save\<close>\<close>




subsection \<open>The author\<close>

lemma TranslatableModel_save_persons:
  "TranslatableModel_save st a = Inr (st', i) \<Longrightarrow> persons st' = persons st"
  "TranslatableModel_save st a = Inl (e, st', k) \<Longrightarrow> persons st' = persons st"
  by (auto simp: TranslatableModel_save_def Let_def split: option.splits if_splits)

lemma finish_persons:
  "persons (db (finish a (TranslatableModel_save st a'))) = persons st"
  by (auto simp: finish_def split: sum.splits dest: TranslatableModel_save_persons)

lemma save_persons:
  assumes "super_save fw = TranslatableModel_save" and "save fw codes st a = Some r"
  shows "persons (db r) =
     (case ensure_author st a of Inl e \<Rightarrow> persons st | Inr (st1, a1) \<Rightarrow> persons st1)"
  using assms
  by (cases rule: save_cases [of st a fw codes])
     (auto simp: finish_persons dest: TranslatableModel_save_persons)

lemma save_author:
  assumes "save fw codes st a = Some r" and "raised r = None"
  shows "\<exists>st1 a1. ensure_author st a = Inr (st1, a1) \<and> author (self r) = author a1"
  using assms
  by (cases rule: save_cases [of st a fw codes]) (auto simp: author_finish)

lemma save_author_given:
  assumes "save fw codes st a = Some r" and "author a = Some p"
  shows "author (self r) = Some p"
  using assms
  by (cases rule: save_cases [of st a fw codes])
     (auto simp: author_finish dest: ensure_author_given [OF assms(2)])

lemma get_or_create_person:
  "get_or_create st u nm = Inr (st', p) \<Longrightarrow>
   \<exists>q \<in> set (persons st'). person_id q = p \<and> person_user q = Some (user_id u)"
proof -
  assume g: "get_or_create st u nm = Inr (st', p)"
  show ?thesis
  proof (cases "filter (\<lambda>p. person_user p = Some (user_id u)) (persons st)")
    case Nil
    with g show ?thesis by (auto simp: get_or_create_def Let_def)
  next
    case (Cons q qs)
    with g have qs: "qs = []" and st: "st' = st" and p: "p = person_id q"
      by (auto simp: get_or_create_def split: list.splits)
    from Cons have "q \<in> set (filter (\<lambda>p. person_user p = Some (user_id u)) (persons st))"
      by simp
    with st p show ?thesis by auto
  qed
qed

lemma get_or_create_one:
  assumes "get_or_create st u nm = Inr (st', p)"
    and "length (filter (\<lambda>q. person_user q = Some v) (persons st)) \<le> 1"
  shows "length (filter (\<lambda>q. person_user q = Some v) (persons st')) \<le> 1"
proof (cases "filter (\<lambda>p. person_user p = Some (user_id u)) (persons st)")
  case Nil
  with assms(1) have st': "persons st' = persons st @
      [\<lparr>person_id = next_id (map person_id (persons st)), person_user = Some (user_id u),
        person_name = nm\<rparr>]"
    by (auto simp: get_or_create_def Let_def)
  show ?thesis
  proof (cases "v = user_id u")
    case True
    with Nil st' show ?thesis by simp
  next
    case False
    with st' assms(2) show ?thesis by simp
  qed
next
  case (Cons q qs)
  with assms(1) have "st' = st" by (auto simp: get_or_create_def split: list.splits)
  with assms(2) show ?thesis by simp
qed

lemma ensure_author_one:
  assumes "ensure_author st a = Inr (st1, a1)"
    and "length (filter (\<lambda>q. person_user q = Some v) (persons st)) \<le> 1"
  shows "length (filter (\<lambda>q. person_user q = Some v) (persons st1)) \<le> 1"
  using assms
  by (auto simp: ensure_author_def split: option.splits sum.splits if_splits
           dest: get_or_create_one)

lemma ensure_author_person:
  assumes "ensure_author st a = Inr (st1, a1)" and "author a = None"
  shows "\<exists>u q. owner a = Some u \<and> q \<in> set (persons st1) \<and> person_user q = Some (user_id u) \<and>
           author a1 = Some (person_id q)"
  using assms
  by (auto simp: ensure_author_def split: option.splits sum.splits if_splits
           dest!: get_or_create_person)

text \<open>
  C6. With Django's \<open>TranslatableModel.save\<close> as the inherited \<open>save\<close>: after a save that
  raised nothing the article has an author. If none was supplied, it is a person of the
  database whose user is the owner of the article; a supplied author is kept and no
  person is created. A user who had at most one person before the save has at most one
  after it, and saving the saved article again leaves the persons as they are.
\<close>

theorem save_resolves_author:
  assumes "save (fw\<lparr>super_save := TranslatableModel_save\<rparr>) codes st a = Some r"
  shows "(raised r = None \<longrightarrow> author (self r) \<noteq> None) \<and>
         (raised r = None \<and> author a = None \<longrightarrow>
            (\<exists>u q. owner a = Some u \<and> q \<in> set (persons (db r)) \<and>
               person_user q = Some (user_id u) \<and> author (self r) = Some (person_id q))) \<and>
         (\<forall>p. author a = Some p \<longrightarrow> author (self r) = Some p \<and> persons (db r) = persons st) \<and>
         (\<forall>v. length (filter (\<lambda>q. person_user q = Some v) (persons st)) \<le> 1 \<longrightarrow>
              length (filter (\<lambda>q. person_user q = Some v) (persons (db r))) \<le> 1) \<and>
         (\<forall>r'. raised r = None \<and>
               save (fw\<lparr>super_save := TranslatableModel_save\<rparr>) codes (db r) (self r) = Some r' \<longrightarrow>
               persons (db r') = persons (db r))"
proof -
  let ?fw = "fw\<lparr>super_save := TranslatableModel_save\<rparr>"
  have ss: "super_save ?fw = TranslatableModel_save" by simp
  note P = save_persons [OF ss]
  have 1: "author (self r) \<noteq> None" if "raised r = None"
    using save_author [OF assms that] ensure_author_Inr(2) by metis
  have 2: "\<exists>u q. owner a = Some u \<and> q \<in> set (persons (db r)) \<and>
               person_user q = Some (user_id u) \<and> author (self r) = Some (person_id q)"
    if "raised r = None" "author a = None"
  proof -
    from save_author [OF assms that(1)] obtain st1 a1 where
      ea: "ensure_author st a = Inr (st1, a1)" and au: "author (self r) = author a1" by blast
    from P [OF assms] ea have "persons (db r) = persons st1" by simp
    with ensure_author_person [OF ea that(2)] au show ?thesis by auto
  qed
  have 3: "author (self r) = Some p \<and> persons (db r) = persons st" if "author a = Some p" for p
  proof (cases "ensure_author st a")
    case (Inl e)
    with save_author_given [OF assms that] P [OF assms] show ?thesis by simp
  next
    case (Inr x)
    then obtain st1 a1 where ea: "ensure_author st a = Inr (st1, a1)" by (cases x) simp
    with ensure_author_given [OF that ea] save_author_given [OF assms that] P [OF assms]
    show ?thesis by simp
  qed
  have 4: "length (filter (\<lambda>q. person_user q = Some v) (persons (db r))) \<le> 1"
    if "length (filter (\<lambda>q. person_user q = Some v) (persons st)) \<le> 1" for v
  proof (cases "ensure_author st a")
    case (Inl e)
    with P [OF assms] that show ?thesis by simp
  next
    case (Inr x)
    then obtain st1 a1 where ea: "ensure_author st a = Inr (st1, a1)" by (cases x) simp
    with P [OF assms] ensure_author_one [OF ea that] show ?thesis by simp
  qed
  have 5: "persons (db r') = persons (db r)"
    if "raised r = None" "save ?fw codes (db r) (self r) = Some r'" for r'
  proof -
    from 1 [OF that(1)] obtain p where p: "author (self r) = Some p" by auto
    show ?thesis
    proof (cases "ensure_author (db r) (self r)")
      case (Inl e)
      with P [OF that(2)] show ?thesis by simp
    next
      case (Inr x)
      then obtain st1 a1 where ea: "ensure_author (db r) (self r) = Inr (st1, a1)"
        by (cases x) simp
      with ensure_author_given [OF p ea] P [OF that(2)] show ?thesis by simp
    qed
  qed
  from 1 2 3 4 5 show ?thesis by blast
qed


theorem save_resolves_author_witness:
  "save (django\<lparr>super_save := TranslatableModel_save\<rparr>) [''en''] empty_store
     (my_story\<lparr>slug := ''my-story''\<rparr>) =
     Some \<lparr>raised = None,
           self = my_story\<lparr>pk := Some 1, slug := ''my-story'', author := Some 1\<rparr>,
           db = story_store\<rparr> \<and>
   author (my_story\<lparr>slug := ''my-story''\<rparr>) = None \<and>
   (\<exists>u q. owner (my_story\<lparr>slug := ''my-story''\<rparr>) = Some u \<and> q \<in> set (persons story_store) \<and>
      person_user q = Some (user_id u) \<and> Some (1::nat) = Some (person_id q)) \<and>
   length (filter (\<lambda>q. person_user q = Some 7) (persons empty_store)) \<le> 1 \<and>
   length (filter (\<lambda>q. person_user q = Some 7) (persons story_store)) \<le> 1 \<and>
   (\<exists>r'. save (django\<lparr>super_save := TranslatableModel_save\<rparr>) [''en''] story_store
           (my_story\<lparr>pk := Some 1, slug := ''my-story'', author := Some 1\<rparr>) = Some r' \<and>
         raised r' = None \<and> persons (db r') = persons story_store)"
proof -
  let ?fw = "django\<lparr>super_save := TranslatableModel_save\<rparr>"
  let ?a = "my_story\<lparr>slug := ''my-story''\<rparr>"
  let ?a' = "my_story\<lparr>pk := Some 1, slug := ''my-story'', author := Some 1\<rparr>"
  let ?r = "\<lparr>raised = None, self = ?a', db = story_store\<rparr>"
  have s: "save ?fw [''en''] empty_store ?a = Some ?r"
    by code_simp
  have n: "author ?a = None" by (simp add: my_story_def)
  have e: "length (filter (\<lambda>q. person_user q = Some 7) (persons empty_store)) \<le> 1"
    by (simp add: empty_store_def)
  have r': "save ?fw [''en''] story_store ?a' = Some ?r"
    by code_simp
  from save_resolves_author [OF s] n e r' show ?thesis
    using s by auto
qed

subsection \<open>Uniqueness of the slugs of a language\<close>

text \<open>
  Every write of a translation row goes through the inherited \<open>save\<close>, and Django's
  refuses a row whose \<open>(language_code, slug)\<close> another row has; a refused save leaves
  the translation table as it was.
\<close>

lemma TranslatableModel_save_unique:
  "unique_together st \<Longrightarrow> TranslatableModel_save st a = Inr (st', i) \<Longrightarrow> unique_together st'"
  "unique_together st \<Longrightarrow> TranslatableModel_save st a = Inl (e, st', k) \<Longrightarrow> unique_together st'"
  by (auto simp: TranslatableModel_save_def unique_together_def Let_def distinct_map_filter
           split: option.splits if_splits)

lemma unique_together_cong:
  "translation_table st' = translation_table st \<Longrightarrow> unique_together st' = unique_together st"
  by (simp add: unique_together_def)

lemma finish_unique:
  "unique_together st \<Longrightarrow> unique_together (db (finish a (TranslatableModel_save st a')))"
  by (auto simp: finish_def split: sum.splits dest: TranslatableModel_save_unique)

lemma save_unique:
  assumes "super_save fw = TranslatableModel_save" and "unique_together st"
    and "save fw codes st a = Some r"
  shows "unique_together (db r)"
proof (cases "ensure_author st a")
  case (Inl e)
  with assms show ?thesis by (auto simp: save_author_error)
next
  case (Inr x)
  then obtain st1 a1 where ea: "ensure_author st a = Inr (st1, a1)" by (cases x) simp
  with assms(2) have u: "unique_together st1"
    by (simp add: unique_together_cong [OF ensure_author_Inr(4)])
  from assms(1,3) ea u show ?thesis
    by (cases rule: save_cases [of st a fw codes])
       (auto simp: finish_unique dest: TranslatableModel_save_unique)
qed

lemma saves_unique:
  "super_save fw = TranslatableModel_save \<Longrightarrow> unique_together st \<Longrightarrow>
   \<exists>st'. saves fw codes st as = Some st' \<and> unique_together st'"
proof (induction as arbitrary: st)
  case Nil
  then show ?case by simp
next
  case (Cons a as)
  from save_total obtain r where r: "save fw codes st a = Some r" by blast
  with Cons.prems have "unique_together (db r)" by (simp add: save_unique)
  from Cons.IH [OF Cons.prems(1) this] r show ?case by simp
qed

lemma unique_together_slugs:
  assumes "unique_together st" and "t1 \<in> set (translation_table st)"
    and "t2 \<in> set (translation_table st)"
    and "t_language_code t1 = t_language_code t2" and "t_slug t1 = t_slug t2"
  shows "t1 = t2"
proof -
  from assms(1) have "inj_on (\<lambda>t. (t_language_code t, t_slug t)) (set (translation_table st))"
    by (simp add: unique_together_def distinct_map)
  with assms(2-5) show ?thesis by (auto dest: inj_onD)
qed

text \<open>
  C4. With Django's \<open>TranslatableModel.save\<close> as the inherited \<open>save\<close>: any sequence of
  calls of \<open>save\<close>, one after the other, on a database that starts empty, runs to its end
  (each call returns or raises) and leaves a database in which no two translation rows
  of the same language that belong to different articles have the same slug.
\<close>

theorem slugs_unique_per_language:
  "\<exists>st. saves (fw\<lparr>super_save := TranslatableModel_save\<rparr>) codes empty_store as = Some st \<and>
        unique_together st \<and>
        (\<forall>t1 \<in> set (translation_table st). \<forall>t2 \<in> set (translation_table st).
            t_language_code t1 = t_language_code t2 \<and> master t1 \<noteq> master t2 \<longrightarrow>
            t_slug t1 \<noteq> t_slug t2)"
proof -
  have "unique_together empty_store" by (simp add: unique_together_def empty_store_def)
  from saves_unique [OF _ this, of "fw\<lparr>super_save := TranslatableModel_save\<rparr>" codes as]
  obtain st where st: "saves (fw\<lparr>super_save := TranslatableModel_save\<rparr>) codes empty_store as = Some st"
    "unique_together st" by auto
  from st(2) have "\<forall>t1 \<in> set (translation_table st). \<forall>t2 \<in> set (translation_table st).
            t_language_code t1 = t_language_code t2 \<and> master t1 \<noteq> master t2 \<longrightarrow>
            t_slug t1 \<noteq> t_slug t2"
    using unique_together_slugs by blast
  with st show ?thesis by blast
qed

theorem slugs_unique_per_language_witness:
  "saves (django\<lparr>super_save := TranslatableModel_save\<rparr>) [''en''] empty_store
      [my_story\<lparr>slug := ''my-story''\<rparr>, named_story, my_story\<lparr>slug := ''my-story''\<rparr>,
       named_story\<lparr>language_code := ''de''\<rparr>] =
     Some \<lparr>persons = [\<lparr>person_id = 1, person_user = Some 7, person_name = ''Ann Lee''\<rparr>],
           articles =
             [\<lparr>row_id = 1, row_author = Some 1, row_owner = 7, row_publishing_date = 10\<rparr>,
              \<lparr>row_id = 2, row_author = Some 1, row_owner = 7, row_publishing_date = 10\<rparr>,
              \<lparr>row_id = 3, row_author = Some 1, row_owner = 7, row_publishing_date = 10\<rparr>,
              \<lparr>row_id = 4, row_author = Some 1, row_owner = 7, row_publishing_date = 10\<rparr>],
           translation_table =
             [\<lparr>master = 1, t_language_code = ''en'', t_title = ''My Story'', t_slug = ''my-story''\<rparr>,
              \<lparr>master = 2, t_language_code = ''en'', t_title = ''My Story'', t_slug = ''my-story_1''\<rparr>,
              \<lparr>master = 4, t_language_code = ''de'', t_title = ''My Story'', t_slug = ''my-story''\<rparr>]\<rparr> \<and>
   unique_together
     \<lparr>persons = [\<lparr>person_id = 1, person_user = Some 7, person_name = ''Ann Lee''\<rparr>],
      articles =
        [\<lparr>row_id = 1, row_author = Some 1, row_owner = 7, row_publishing_date = 10\<rparr>,
         \<lparr>row_id = 2, row_author = Some 1, row_owner = 7, row_publishing_date = 10\<rparr>,
         \<lparr>row_id = 3, row_author = Some 1, row_owner = 7, row_publishing_date = 10\<rparr>,
         \<lparr>row_id = 4, row_author = Some 1, row_owner = 7, row_publishing_date = 10\<rparr>],
      translation_table =
        [\<lparr>master = 1, t_language_code = ''en'', t_title = ''My Story'', t_slug = ''my-story''\<rparr>,
         \<lparr>master = 2, t_language_code = ''en'', t_title = ''My Story'', t_slug = ''my-story_1''\<rparr>,
         \<lparr>master = 4, t_language_code = ''de'', t_title = ''My Story'', t_slug = ''my-story''\<rparr>]\<rparr>"
proof -
  have "saves (django\<lparr>super_save := TranslatableModel_save\<rparr>) [''en''] empty_store
      [my_story\<lparr>slug := ''my-story''\<rparr>, named_story, my_story\<lparr>slug := ''my-story''\<rparr>,
       named_story\<lparr>language_code := ''de''\<rparr>] =
     Some \<lparr>persons = [\<lparr>person_id = 1, person_user = Some 7, person_name = ''Ann Lee''\<rparr>],
           articles =
             [\<lparr>row_id = 1, row_author = Some 1, row_owner = 7, row_publishing_date = 10\<rparr>,
              \<lparr>row_id = 2, row_author = Some 1, row_owner = 7, row_publishing_date = 10\<rparr>,
              \<lparr>row_id = 3, row_author = Some 1, row_owner = 7, row_publishing_date = 10\<rparr>,
              \<lparr>row_id = 4, row_author = Some 1, row_owner = 7, row_publishing_date = 10\<rparr>],
           translation_table =
             [\<lparr>master = 1, t_language_code = ''en'', t_title = ''My Story'', t_slug = ''my-story''\<rparr>,
              \<lparr>master = 2, t_language_code = ''en'', t_title = ''My Story'', t_slug = ''my-story_1''\<rparr>,
              \<lparr>master = 4, t_language_code = ''de'', t_title = ''My Story'', t_slug = ''my-story''\<rparr>]\<rparr>"
    by code_simp
  with slugs_unique_per_language [of django "[''en'']"
      "[my_story\<lparr>slug := ''my-story''\<rparr>, named_story, my_story\<lparr>slug := ''my-story''\<rparr>,
        named_story\<lparr>language_code := ''de''\<rparr>]"]
  show ?thesis by auto
qed

subsection \<open>The latest entries\<close>

lemma set_active_translations:
  "set (active_translations active st) =
     {r \<in> set (articles st). \<exists>t \<in> set (translation_table st).
         master t = row_id r \<and> t_language_code t \<in> set active}"
  by (auto simp: active_translations_def)

lemma sorted_active_translations:
  "sorted_wrt (\<lambda>x y. row_publishing_date y \<le> row_publishing_date x)
     (active_translations active st)"
proof -
  have "sorted (map (\<lambda>r. - row_publishing_date r) (active_translations active st))"
    by (simp add: active_translations_def)
  then show ?thesis by (simp add: sorted_map)
qed

text \<open>
  C7, for a count that is not negative. \<open>get_articles\<close> returns the first \<open>N\<close> rows of
  the articles with a translation in an active language, in descending order of the
  publishing date: at most \<open>N\<close> rows, each an article of the database with such a
  translation, sorted with the newest first, and no row that was cut off is newer than a
  row returned. The function reads the database and returns rows only: it has no store
  to return, so nothing is written.
\<close>

theorem get_articles_latest:
  assumes "0 \<le> latest_entries p"
  shows "\<exists>rows. get_articles active st p = Inr rows \<and>
           rows = take (nat (latest_entries p)) (active_translations active st) \<and>
           int (length rows) \<le> latest_entries p \<and>
           (\<forall>r \<in> set rows. r \<in> set (articles st) \<and>
              (\<exists>t \<in> set (translation_table st).
                 master t = row_id r \<and> t_language_code t \<in> set active)) \<and>
           sorted_wrt (\<lambda>x y. row_publishing_date y \<le> row_publishing_date x) rows \<and>
           (\<forall>r \<in> set rows.
              \<forall>r' \<in> set (drop (nat (latest_entries p)) (active_translations active st)).
                row_publishing_date r' \<le> row_publishing_date r)"
proof -
  let ?n = "nat (latest_entries p)"
  let ?all = "active_translations active st"
  let ?P = "\<lambda>x y. row_publishing_date y \<le> row_publishing_date x"
  from assms have g: "get_articles active st p = Inr (take ?n ?all)"
    by (simp add: get_articles_def)
  have l: "int (length (take ?n ?all)) \<le> latest_entries p"
    using assms by simp
  have m: "\<forall>r \<in> set (take ?n ?all). r \<in> set (articles st) \<and>
      (\<exists>t \<in> set (translation_table st). master t = row_id r \<and> t_language_code t \<in> set active)"
    using set_take_subset [of ?n ?all] set_active_translations [of active st] by blast
  have "sorted_wrt ?P (take ?n ?all @ drop ?n ?all)"
    using sorted_active_translations by simp
  then have s: "sorted_wrt ?P (take ?n ?all)"
    and d: "\<forall>r \<in> set (take ?n ?all). \<forall>r' \<in> set (drop ?n ?all). ?P r r'"
    unfolding sorted_wrt_append by blast+
  from g l m s d show ?thesis by blast
qed

theorem get_articles_latest_witness:
  "(0::int) \<le> latest_entries \<lparr>latest_entries = 5\<rparr> \<and>
   get_articles [''en''] archive \<lparr>latest_entries = 5\<rparr> = Inr [dated 3 50, dated 1 30, dated 2 10] \<and>
   (0::int) \<le> latest_entries \<lparr>latest_entries = 2\<rparr> \<and>
   get_articles [''en''] archive \<lparr>latest_entries = 2\<rparr> = Inr [dated 3 50, dated 1 30] \<and>
   (\<exists>rows. get_articles [''en''] archive \<lparr>latest_entries = 2\<rparr> = Inr rows \<and>
      int (length rows) \<le> 2 \<and>
      sorted_wrt (\<lambda>x y. row_publishing_date y \<le> row_publishing_date x) rows)"
proof -
  have h: "(0::int) \<le> latest_entries \<lparr>latest_entries = 2\<rparr>" by simp
  have e: "get_articles [''en''] archive \<lparr>latest_entries = 5\<rparr> = Inr [dated 3 50, dated 1 30, dated 2 10]"
    "get_articles [''en''] archive \<lparr>latest_entries = 2\<rparr> = Inr [dated 3 50, dated 1 30]"
    by code_simp+
  from get_articles_latest [OF h, of "[''en'']" archive]
  obtain rows where r: "get_articles [''en''] archive \<lparr>latest_entries = 2\<rparr> = Inr rows"
    "int (length rows) \<le> latest_entries \<lparr>latest_entries = 2\<rparr>"
    "sorted_wrt (\<lambda>x y. row_publishing_date y \<le> row_publishing_date x) rows"
    by blast
  from r(2) have "int (length rows) \<le> 2" by simp
  moreover have "(0::int) \<le> latest_entries \<lparr>latest_entries = 5\<rparr>" by simp
  ultimately show ?thesis using r(1,3) e h by blast
qed

text \<open>
  C7 as stated, for every count, fails: the field is an \<open>IntegerField\<close> and takes
  negative numbers, and the slice \<open>articles[:-1]\<close> of a query set raises.
\<close>

theorem get_articles_negative_count:
  "get_articles [''en''] archive \<lparr>latest_entries = - 1\<rparr> = Inl AssertionError"
  by code_simp


subsection \<open>Module initialisation\<close>

text \<open>
  C9. If neither \<open>LANGUAGES\<close> nor \<open>LANGUAGE\<close> holds a language, the module raises while it
  is imported, so the application does not start: \<open>ImproperlyConfigured\<close> when \<open>LANGUAGE\<close>
  is there and empty, \<open>AttributeError\<close> from the very test \<open>settings.LANGUAGE\<close> when the
  attribute is missing. If \<open>LANGUAGES\<close> is not empty, initialisation succeeds with the first
  components of its entries, and that list is not empty; if only \<open>LANGUAGE\<close> is set, the
  codes are that one language.
\<close>

theorem LANGUAGE_CODES_startup:
  "(LANGUAGES s = [] \<and> LANGUAGE s = Some [] \<longrightarrow> LANGUAGE_CODES s = Inl ImproperlyConfigured) \<and>
   (LANGUAGES s = [] \<and> LANGUAGE s = None \<longrightarrow> LANGUAGE_CODES s = Inl AttributeError) \<and>
   (LANGUAGES s \<noteq> [] \<longrightarrow>
      LANGUAGE_CODES s = Inr (map fst (LANGUAGES s)) \<and> map fst (LANGUAGES s) \<noteq> []) \<and>
   (LANGUAGES s = [] \<longrightarrow> (\<forall>l. LANGUAGE s = Some l \<and> l \<noteq> [] \<longrightarrow> LANGUAGE_CODES s = Inr [l]))"
  by (simp add: LANGUAGE_CODES_def)

theorem LANGUAGE_CODES_startup_witness:
  "LANGUAGE_CODES \<lparr>LANGUAGES = [], LANGUAGE = None\<rparr> = Inl AttributeError \<and>
   LANGUAGE_CODES \<lparr>LANGUAGES = [], LANGUAGE = Some []\<rparr> = Inl ImproperlyConfigured \<and>
   LANGUAGE_CODES \<lparr>LANGUAGES = [(''en'', ''English''), (''de'', ''German'')], LANGUAGE = None\<rparr>
     = Inr [''en'', ''de''] \<and>
   LANGUAGE_CODES \<lparr>LANGUAGES = [], LANGUAGE = Some ''en''\<rparr> = Inr [''en'']"
  using LANGUAGE_CODES_startup [of "\<lparr>LANGUAGES = [], LANGUAGE = None\<rparr>"]
        LANGUAGE_CODES_startup [of "\<lparr>LANGUAGES = [], LANGUAGE = Some []\<rparr>"]
        LANGUAGE_CODES_startup [of "\<lparr>LANGUAGES = [(''en'', ''English''), (''de'', ''German'')], LANGUAGE = None\<rparr>"]
        LANGUAGE_CODES_startup [of "\<lparr>LANGUAGES = [], LANGUAGE = Some ''en''\<rparr>"]
  by simp

end
